theory Spec2Isabelle
  imports Main
begin

section \<open>The experiment configuration EndingsSeg\_12g90g270g\_125mm\_DAugAll\<close>

text \<open>
  The source file is a class statement with three assignments in its body:
  \<^verbatim>\<open>
  class Config(EndingsSegConfig):
      EXP_NAME = os.path.basename(__file__).split(".")[0]

      NUM_EPOCHS = 500
      DATA_AUGMENTATION = True
  \<close>
  The base class \<open>EndingsSegConfig\<close> lives in another module; it is a parameter of
  the model. The path \<open>__file__\<close> of the defining module is a parameter too.
\<close>

subsection \<open>Values and errors\<close>

text \<open>
  The class body binds a string, an integer and a boolean. The base class may hold
  objects of any other kind; they are carried by \<open>PyOther\<close>.
\<close>

datatype 'o py_value = PyStr string | PyInt int | PyBool bool | PyOther 'o

text \<open>The only expression of the file that can raise is the subscript \<open>[0]\<close>.\<close>

datatype py_error = IndexError

subsection \<open>The library calls of the right-hand side of EXP\_NAME\<close>

text \<open>
  \<open>os.path.basename\<close> on a POSIX system is
  \<^verbatim>\<open>i = p.rfind('/') + 1; return p[i:]\<close>:
  the text after the last slash, the whole path when it has none.
\<close>

definition basename :: "string \<Rightarrow> string" where
  "basename p = rev (takeWhile (\<lambda>c. c \<noteq> CHR ''/'') (rev p))"

text \<open>
  \<open>s.split(sep)\<close> with a one-character separator scans from the left: the text before
  the next separator is a segment and the scan goes on behind it; the text after the
  last separator (the whole string when there is none, also when it is empty) is the
  last segment.
\<close>

function str_split :: "char \<Rightarrow> string \<Rightarrow> string list" where
  "str_split sep s =
     (case dropWhile (\<lambda>c. c \<noteq> sep) s of
        [] \<Rightarrow> [s]
      | _ # rest \<Rightarrow> takeWhile (\<lambda>c. c \<noteq> sep) s # str_split sep rest)"
  by pat_completeness auto
termination
proof (relation "measure (\<lambda>(sep, s). length s)")
  show "wf (measure (\<lambda>(sep, s). length s))"
    by simp
next
  fix sep :: char and s :: string and x rest
  assume "dropWhile (\<lambda>c. c \<noteq> sep) s = x # rest"
  then have "length (dropWhile (\<lambda>c. c \<noteq> sep) s) = Suc (length rest)"
    by simp
  moreover have "length (dropWhile (\<lambda>c. c \<noteq> sep) s) \<le> length s"
    by (rule length_dropWhile_le)
  ultimately show "((sep, rest), (sep, s)) \<in> measure (\<lambda>(sep, s). length s)"
    by simp
qed

declare str_split.simps [simp del]

text \<open>The subscript \<open>xs[0]\<close> raises IndexError on an empty list.\<close>

fun getitem0 :: "'a list \<Rightarrow> py_error + 'a" where
  "getitem0 [] = Inl IndexError"
| "getitem0 (x # xs) = Inr x"

subsection \<open>The class body\<close>

text \<open>
  \<^verbatim>\<open>os.path.basename(__file__).split(".")[0]\<close>, with \<open>file\<close> for \<open>__file__\<close>.
\<close>

definition EXP_NAME :: "string \<Rightarrow> py_error + string" where
  "EXP_NAME file = getitem0 (str_split CHR ''.'' (basename file))"

definition NUM_EPOCHS :: int where
  "NUM_EPOCHS = 500"

definition DATA_AUGMENTATION :: bool where
  "DATA_AUGMENTATION = True"

text \<open>
  The body runs its assignments in order on an empty namespace; an exception in the
  first one would abandon the class statement.
\<close>

definition Config_body :: "string \<Rightarrow> py_error + (string \<rightharpoonup> 'o py_value)" where
  "Config_body file =
     (case EXP_NAME file of
        Inl e \<Rightarrow> Inl e
      | Inr name \<Rightarrow>
          Inr (Map.empty(''EXP_NAME'' \<mapsto> PyStr name,
                         ''NUM_EPOCHS'' \<mapsto> PyInt NUM_EPOCHS,
                         ''DATA_AUGMENTATION'' \<mapsto> PyBool DATA_AUGMENTATION)))"

text \<open>
  Attribute lookup on a class with one base: the class's own namespace first, the base
  class next. \<open>None\<close> stands for AttributeError.
\<close>

definition new_class :: "(string \<rightharpoonup> 'o py_value) \<Rightarrow> (string \<rightharpoonup> 'o py_value) \<Rightarrow> (string \<rightharpoonup> 'o py_value)" where
  "new_class body base = (\<lambda>k. case body k of Some v \<Rightarrow> Some v | None \<Rightarrow> base k)"

text \<open>\<^verbatim>\<open>class Config(EndingsSegConfig): ...\<close> in the module at path \<open>file\<close>.\<close>

definition Config :: "string \<Rightarrow> (string \<rightharpoonup> 'o py_value) \<Rightarrow> py_error + (string \<rightharpoonup> 'o py_value)" where
  "Config file EndingsSegConfig =
     (case Config_body file of
        Inl e \<Rightarrow> Inl e
      | Inr body \<Rightarrow> Inr (new_class body EndingsSegConfig))"

subsection \<open>The class as an object with a lifetime\<close>








subsection \<open>The specification's name derivation\<close>

text \<open>
  The specification describes the derived name as the base name with the file extension
  stripped, "everything up to the last dot of the base name". This definition follows
  those words, not the source, to be compared with \<open>EXP_NAME\<close>: the text before the
  last dot, the whole name when it has no dot.
\<close>

definition spec_stem :: "string \<Rightarrow> string" where
  "spec_stem name =
     (if CHR ''.'' \<in> set name
      then rev (tl (dropWhile (\<lambda>c. c \<noteq> CHR ''.'') (rev name)))
      else name)"

section \<open>Properties of the library calls\<close>

lemma str_split_first:
  "\<exists>rest. str_split sep s = takeWhile (\<lambda>c. c \<noteq> sep) s # rest"
proof (cases "dropWhile (\<lambda>c. c \<noteq> sep) s")
  case Nil
  have "takeWhile (\<lambda>c. c \<noteq> sep) s @ dropWhile (\<lambda>c. c \<noteq> sep) s = s"
    by (rule takeWhile_dropWhile_id)
  then have whole: "takeWhile (\<lambda>c. c \<noteq> sep) s = s"
    by (simp only: Nil append_Nil2)
  have "str_split sep s = [s]"
    by (subst str_split.simps) (simp only: Nil list.case)
  then have "str_split sep s = takeWhile (\<lambda>c. c \<noteq> sep) s # []"
    by (simp only: whole)
  then show ?thesis
    by blast
next
  case (Cons x rest)
  have "str_split sep s = takeWhile (\<lambda>c. c \<noteq> sep) s # str_split sep rest"
    by (subst str_split.simps) (simp only: Cons list.case)
  then show ?thesis
    by blast
qed

lemma EXP_NAME_eq:
  "EXP_NAME file = Inr (takeWhile (\<lambda>c. c \<noteq> CHR ''.'') (basename file))"
proof -
  obtain rest where
    "str_split CHR ''.'' (basename file) =
       takeWhile (\<lambda>c. c \<noteq> CHR ''.'') (basename file) # rest"
    using str_split_first by blast
  then show ?thesis
    by (simp add: EXP_NAME_def)
qed

lemma basename_append_slash:
  assumes "CHR ''/'' \<notin> set name"
  shows "basename (dir @ CHR ''/'' # name) = name"
proof -
  have no_slash: "\<And>c. c \<in> set (rev name) \<Longrightarrow> c \<noteq> CHR ''/''"
    using assms by auto
  have "takeWhile (\<lambda>c. c \<noteq> CHR ''/'') (rev name @ CHR ''/'' # rev dir)
        = rev name @ takeWhile (\<lambda>c. c \<noteq> CHR ''/'') (CHR ''/'' # rev dir)"
    using no_slash by (rule takeWhile_append2)
  then have "takeWhile (\<lambda>c. c \<noteq> CHR ''/'') (rev (dir @ CHR ''/'' # name)) = rev name"
    by simp
  then show ?thesis
    by (simp add: basename_def)
qed

lemma str_split_not_empty: "str_split sep s \<noteq> []"
  using str_split_first [of sep s] by auto

lemma Config_body_eq:
  "Config_body file =
     Inr (Map.empty(''EXP_NAME'' \<mapsto> PyStr (takeWhile (\<lambda>c. c \<noteq> CHR ''.'') (basename file)),
                    ''NUM_EPOCHS'' \<mapsto> PyInt 500,
                    ''DATA_AUGMENTATION'' \<mapsto> PyBool True))"
  by (simp add: Config_body_def EXP_NAME_eq NUM_EPOCHS_def DATA_AUGMENTATION_def)

lemma Config_eq:
  "Config file base =
     Inr (new_class
           (Map.empty(''EXP_NAME'' \<mapsto> PyStr (takeWhile (\<lambda>c. c \<noteq> CHR ''.'') (basename file)),
                      ''NUM_EPOCHS'' \<mapsto> PyInt 500,
                      ''DATA_AUGMENTATION'' \<mapsto> PyBool True))
           base)"
  by (simp add: Config_def Config_body_eq)

lemma basename_no_slash: "CHR ''/'' \<notin> set (basename p)"
proof
  assume "CHR ''/'' \<in> set (basename p)"
  then have "CHR ''/'' \<in> set (takeWhile (\<lambda>c. c \<noteq> CHR ''/'') (rev p))"
    by (simp add: basename_def)
  then show False
    by (auto dest: set_takeWhileD)
qed

lemma first_segment_no_dot: "CHR ''.'' \<notin> set (takeWhile (\<lambda>c. c \<noteq> CHR ''.'') s)"
  by (auto dest: set_takeWhileD)

lemma first_segment_subset: "set (takeWhile P s) \<subseteq> set s"
  by (auto dest: set_takeWhileD)

lemma spec_stem_last_dot:
  assumes "CHR ''.'' \<notin> set d"
  shows "spec_stem (a @ CHR ''.'' # d) = a"
proof -
  have no_dot: "\<And>c. c \<in> set (rev d) \<Longrightarrow> c \<noteq> CHR ''.''"
    using assms by auto
  have "dropWhile (\<lambda>c. c \<noteq> CHR ''.'') (rev d @ CHR ''.'' # rev a)
        = dropWhile (\<lambda>c. c \<noteq> CHR ''.'') (CHR ''.'' # rev a)"
    using no_dot by (rule dropWhile_append2)
  then have "dropWhile (\<lambda>c. c \<noteq> CHR ''.'') (rev (a @ CHR ''.'' # d)) = CHR ''.'' # rev a"
    by simp
  then show ?thesis
    by (simp add: spec_stem_def)
qed

lemma split_at_first_dot:
  assumes "CHR ''.'' \<in> set name"
  shows "\<exists>b. name = takeWhile (\<lambda>c. c \<noteq> CHR ''.'') name @ CHR ''.'' # b"
proof (cases "dropWhile (\<lambda>c. c \<noteq> CHR ''.'') name")
  case Nil
  then have "\<forall>c \<in> set name. c \<noteq> CHR ''.''"
    by (simp only: dropWhile_eq_Nil_conv)
  with assms show ?thesis
    by blast
next
  case (Cons x b)
  then have "name = takeWhile (\<lambda>c. c \<noteq> CHR ''.'') name @ x # b \<and> \<not> x \<noteq> CHR ''.''"
    by (rule iffD1 [OF dropWhile_eq_Cons_conv])
  then have eq: "name = takeWhile (\<lambda>c. c \<noteq> CHR ''.'') name @ x # b" and x: "x = CHR ''.''"
    by blast+
  from eq x show ?thesis
    by blast
qed

lemma spec_stem_first_segment:
  "spec_stem name = takeWhile (\<lambda>c. c \<noteq> CHR ''.'') name
   \<longleftrightarrow> count_list name CHR ''.'' \<le> 1"
proof (cases "CHR ''.'' \<in> set name")
  case False
  then have "takeWhile (\<lambda>c. c \<noteq> CHR ''.'') name = name"
    by (auto simp: takeWhile_eq_all_conv)
  moreover from False have "spec_stem name = name"
    by (simp add: spec_stem_def)
  ultimately have "spec_stem name = takeWhile (\<lambda>c. c \<noteq> CHR ''.'') name"
    by (rule ssubst)
  moreover from False have "count_list name CHR ''.'' = 0"
    by (simp add: count_list_0_iff)
  ultimately show ?thesis
    by (simp only: le0 simp_thms)
next
  case True
  let ?t = "takeWhile (\<lambda>c. c \<noteq> CHR ''.'') name"
  from True obtain b where name: "name = ?t @ CHR ''.'' # b"
    using split_at_first_dot by blast
  have t: "count_list ?t CHR ''.'' = 0"
    by (simp add: count_list_0_iff first_segment_no_dot)
  have "count_list name CHR ''.'' = count_list (?t @ CHR ''.'' # b) CHR ''.''"
    using name by simp
  then have count: "count_list name CHR ''.'' = Suc (count_list b CHR ''.'')"
    using t by simp
  show ?thesis
  proof (cases "CHR ''.'' \<in> set b")
    case False
    then have "spec_stem (?t @ CHR ''.'' # b) = ?t"
      by (rule spec_stem_last_dot)
    then have "spec_stem name = ?t"
      using name by simp
    moreover from False have "count_list b CHR ''.'' = 0"
      by (simp add: count_list_0_iff)
    ultimately show ?thesis
      using count by simp
  next
    case True
    then obtain b1 d where b: "b = b1 @ CHR ''.'' # d" and d: "CHR ''.'' \<notin> set d"
      using split_list_last [of "CHR ''.''" b] by blast
    have "spec_stem ((?t @ CHR ''.'' # b1) @ CHR ''.'' # d) = ?t @ CHR ''.'' # b1"
      using d by (rule spec_stem_last_dot)
    moreover have "name = (?t @ CHR ''.'' # b1) @ CHR ''.'' # d"
      using name b by simp
    ultimately have "spec_stem name = ?t @ CHR ''.'' # b1"
      by simp
    then have "spec_stem name \<noteq> ?t"
      by simp
    moreover from True have "count_list b CHR ''.'' \<noteq> 0"
      by (simp add: count_list_0_iff)
    ultimately show ?thesis
      using count by simp
  qed
qed






section \<open>The claims\<close>

text \<open>
  In what follows a field is a name bound by an assignment of a class body; the
  attributes that the interpreter attaches to every class by itself (its module, its
  documentation string) are not configuration fields and are not part of a namespace
  here. The class statement is followed through the module's path \<open>file\<close> and the base
  class \<open>base\<close>, both arbitrary unless fixed.
\<close>

text \<open>
  C1. The configuration of this file has \<^verbatim>\<open>EXP_NAME\<close> equal to the string
  \<^verbatim>\<open>EndingsSeg_12g90g270g_125mm_DAugAll\<close>, the base name of the defining file without
  its extension: whether the module \<^verbatim>\<open>EndingsSeg_12g90g270g_125mm_DAugAll.py\<close> is named
  by its bare file name or behind any directory, and whatever the base class holds, the
  class statement succeeds and the attribute is that string.
\<close>

theorem C1_EXP_NAME_of_this_file:
  "(\<exists>c. Config ''EndingsSeg_12g90g270g_125mm_DAugAll.py'' base = Inr c \<and>
        c ''EXP_NAME'' = Some (PyStr ''EndingsSeg_12g90g270g_125mm_DAugAll'')) \<and>
   (\<exists>c. Config (dir @ ''/EndingsSeg_12g90g270g_125mm_DAugAll.py'') base = Inr c \<and>
        c ''EXP_NAME'' = Some (PyStr ''EndingsSeg_12g90g270g_125mm_DAugAll''))"
proof -
  have bare: "basename ''EndingsSeg_12g90g270g_125mm_DAugAll.py''
        = ''EndingsSeg_12g90g270g_125mm_DAugAll.py''"
    by (simp add: basename_def)
  have "basename (dir @ CHR ''/'' # ''EndingsSeg_12g90g270g_125mm_DAugAll.py'')
        = ''EndingsSeg_12g90g270g_125mm_DAugAll.py''"
    by (rule basename_append_slash) simp
  then have behind: "basename (dir @ ''/EndingsSeg_12g90g270g_125mm_DAugAll.py'')
        = ''EndingsSeg_12g90g270g_125mm_DAugAll.py''"
    by simp
  show ?thesis
    by (simp add: Config_eq new_class_def bare behind)
qed

text \<open>
  C2, as stated: for every path the derivation returns the base name with the extension
  stripped, everything up to the last dot of the base name. It does not: for the module
  \<^verbatim>\<open>pkg/model.v2.py\<close> the source yields \<^verbatim>\<open>model\<close>, while the text up to the last dot of
  the base name is \<^verbatim>\<open>model.v2\<close>.
\<close>

theorem C2_EXP_NAME_is_not_last_dot_stem:
  "EXP_NAME ''pkg/model.v2.py'' = Inr ''model'' \<and>
   spec_stem (basename ''pkg/model.v2.py'') = ''model.v2''"
  by (simp add: EXP_NAME_eq basename_def spec_stem_def)

text \<open>
  C2, amended. For every path the derivation returns everything up to the first dot of
  the base name (the whole base name when it has no dot); this is the base name up to
  its last dot exactly when the base name has at most one dot.
\<close>

theorem C2_EXP_NAME_first_segment:
  "EXP_NAME file = Inr (takeWhile (\<lambda>c. c \<noteq> CHR ''.'') (basename file)) \<and>
   (EXP_NAME file = Inr (spec_stem (basename file))
      \<longleftrightarrow> count_list (basename file) CHR ''.'' \<le> 1)"
proof -
  have "spec_stem (basename file) = takeWhile (\<lambda>c. c \<noteq> CHR ''.'') (basename file)
        \<longleftrightarrow> count_list (basename file) CHR ''.'' \<le> 1"
    by (rule spec_stem_first_segment)
  then have "Inr (takeWhile (\<lambda>c. c \<noteq> CHR ''.'') (basename file)) = (Inr (spec_stem (basename file)) :: py_error + string)
        \<longleftrightarrow> count_list (basename file) CHR ''.'' \<le> 1"
    by auto
  then show ?thesis
    by (simp only: EXP_NAME_eq simp_thms)
qed

text \<open>
  C3. The configuration of this file has \<^verbatim>\<open>NUM_EPOCHS\<close> equal to the integer 500: for
  every path and base class the class statement succeeds and the attribute is 500.
\<close>

theorem C3_NUM_EPOCHS:
  "\<exists>c. Config file base = Inr c \<and> c ''NUM_EPOCHS'' = Some (PyInt 500)"
  by (simp add: Config_eq new_class_def)

text \<open>
  C4. The configuration of this file has \<^verbatim>\<open>DATA_AUGMENTATION\<close> equal to the boolean
  true.
\<close>

theorem C4_DATA_AUGMENTATION:
  "\<exists>c. Config file base = Inr c \<and> c ''DATA_AUGMENTATION'' = Some (PyBool True)"
  by (simp add: Config_eq new_class_def)

text \<open>
  C5. Every field other than \<^verbatim>\<open>EXP_NAME\<close>, \<^verbatim>\<open>NUM_EPOCHS\<close> and \<^verbatim>\<open>DATA_AUGMENTATION\<close>
  has in the configuration of this file the value it has in the base configuration
  (and is absent when the base does not have it): the class body is an overlay on the
  base, not a replacement.
\<close>

theorem C5_other_fields_inherited:
  assumes "k \<notin> {''EXP_NAME'', ''NUM_EPOCHS'', ''DATA_AUGMENTATION''}"
  shows "\<exists>c. Config file base = Inr c \<and> c k = base k"
  using assms by (simp add: Config_eq new_class_def)

text \<open>
  An instance: a base class with a batch size and its own epoch count; the batch size
  is read unchanged through the subclass.
\<close>

theorem C5_other_fields_inherited_witness:
  "\<exists>c. Config ''experiments/EndingsSeg_12g90g270g_125mm_DAugAll.py''
          (Map.empty(''BATCH_SIZE'' \<mapsto> PyInt 47, ''NUM_EPOCHS'' \<mapsto> PyInt 250)) = Inr c \<and>
       c ''BATCH_SIZE'' = (Some (PyInt 47) :: unit py_value option)"
  using C5_other_fields_inherited
    [of "''BATCH_SIZE''" "''experiments/EndingsSeg_12g90g270g_125mm_DAugAll.py''"
        "Map.empty(''BATCH_SIZE'' \<mapsto> PyInt 47, ''NUM_EPOCHS'' \<mapsto> (PyInt 250 :: unit py_value))"]
  by simp

text \<open>
  C6. The keys that this file overrides are exactly \<^verbatim>\<open>EXP_NAME\<close>, \<^verbatim>\<open>NUM_EPOCHS\<close> and
  \<^verbatim>\<open>DATA_AUGMENTATION\<close>, no more and no fewer: the class body binds these three names
  and no other, and whatever the base class holds, also under these very names, the
  class reads the body's value on each of the three and the base's on every other key.
\<close>

theorem C6_overridden_keys:
  "\<exists>body :: string \<rightharpoonup> 'o py_value.
      Config_body file = Inr body \<and>
      dom body = {''EXP_NAME'', ''NUM_EPOCHS'', ''DATA_AUGMENTATION''} \<and>
      (\<forall>base k. \<exists>c. Config file base = Inr c \<and>
                      c k = (if k \<in> dom body then body k else base k))"
proof -
  let ?body = "Map.empty(''EXP_NAME'' \<mapsto> PyStr (takeWhile (\<lambda>c. c \<noteq> CHR ''.'') (basename file)),
                          ''NUM_EPOCHS'' \<mapsto> PyInt 500,
                          ''DATA_AUGMENTATION'' \<mapsto> PyBool True) :: string \<rightharpoonup> 'o py_value"
  have body: "Config_body file = Inr ?body"
    by (rule Config_body_eq)
  have keys: "dom ?body = {''EXP_NAME'', ''NUM_EPOCHS'', ''DATA_AUGMENTATION''}"
    by auto
  have "\<And>base k. new_class ?body base k = (if k \<in> dom ?body then ?body k else base k)"
    by (auto simp: new_class_def split: option.splits)
  then have reads: "\<forall>base k. \<exists>c. Config file base = Inr c \<and>
                      c k = (if k \<in> dom ?body then ?body k else base k)"
    by (simp only: Config_eq sum.inject simp_thms ex_simps)
  from body keys reads show ?thesis
    by blast
qed

text \<open>
  C7. Constructing the configuration never fails. Splitting always yields at least one
  segment, so the subscript \<^verbatim>\<open>[0]\<close> is in bounds and the derivation of the name returns
  for every path; with it the whole class statement returns a class for every path and
  every base class, and no branch of it ends in an error.
\<close>

theorem C7_construction_total:
  "str_split sep s \<noteq> [] \<and>
   (\<exists>name. EXP_NAME file = Inr name) \<and>
   (\<exists>c. Config file base = Inr c)"
  by (simp add: str_split_not_empty EXP_NAME_eq Config_eq)




text \<open>
  C9. For every path whose base name begins with a dot the derivation returns the empty
  string: the name is the segment before the first dot of the base name.
\<close>

theorem C9_leading_dot_gives_empty_name:
  assumes "basename file = CHR ''.'' # rest"
  shows "EXP_NAME file = Inr ''''"
  using assms by (simp add: EXP_NAME_eq)

text \<open>An instance: the hidden file \<^verbatim>\<open>experiments/.hidden.py\<close>.\<close>

theorem C9_leading_dot_gives_empty_name_witness:
  "basename ''experiments/.hidden.py'' = CHR ''.'' # ''hidden.py'' \<and>
   EXP_NAME ''experiments/.hidden.py'' = Inr ''''"
proof -
  have b: "basename ''experiments/.hidden.py'' = CHR ''.'' # ''hidden.py''"
    by (simp add: basename_def)
  from b C9_leading_dot_gives_empty_name [OF b] show ?thesis
    by simp
qed

text \<open>
  C10. The derived name is a function of the defining file's path alone, and contains
  neither a dot nor a path separator: for every path there is one string, free of
  \<^verbatim>\<open>.\<close> and \<^verbatim>\<open>/\<close>, that the derivation returns and that every construction of the
  class from that path carries as \<^verbatim>\<open>EXP_NAME\<close>, whatever the base class is.
\<close>

theorem C10_EXP_NAME_depends_on_path_only:
  "\<exists>name. EXP_NAME file = Inr name \<and>
          CHR ''.'' \<notin> set name \<and> CHR ''/'' \<notin> set name \<and>
          (\<forall>base :: string \<rightharpoonup> 'o py_value.
             \<exists>c. Config file base = Inr c \<and> c ''EXP_NAME'' = Some (PyStr name))"
proof -
  let ?name = "takeWhile (\<lambda>c. c \<noteq> CHR ''.'') (basename file)"
  have "CHR ''.'' \<notin> set ?name"
    by (rule first_segment_no_dot)
  moreover have "CHR ''/'' \<notin> set ?name"
    using basename_no_slash [of "file"] first_segment_subset [of "\<lambda>c. c \<noteq> CHR ''.''" "basename file"]
    by blast
  moreover have "\<forall>base :: string \<rightharpoonup> 'o py_value.
       \<exists>c. Config file base = Inr c \<and> c ''EXP_NAME'' = Some (PyStr ?name)"
    by (simp add: Config_eq new_class_def)
  ultimately show ?thesis
    using EXP_NAME_eq [of "file"] by blast
qed

end
